theory Spec2Isabelle
  imports Main
begin

unbundle bit_operations_syntax

section \<open>Configuration constants\<close>

text \<open>
  Modelled from the spec: the header with the compile-time constants is not part of the
  sources. The three address widths are the parameters; every other constant is derived
  from them by the formulas of section 6 of the specification, with \<open>RAM_SIZE\<close> for the
  number of words of the physical memory, two to the power of the physical address width.
\<close>

record config =
  OFFSET_WIDTH :: nat
  PHYSICAL_ADDRESS_WIDTH :: nat
  VIRTUAL_ADDRESS_WIDTH :: nat

definition PAGE_SIZE :: "config \<Rightarrow> int" where
  "PAGE_SIZE c = push_bit (OFFSET_WIDTH c) 1"

definition RAM_SIZE :: "config \<Rightarrow> int" where
  "RAM_SIZE c = push_bit (PHYSICAL_ADDRESS_WIDTH c) 1"

definition VIRTUAL_MEMORY_SIZE :: "config \<Rightarrow> int" where
  "VIRTUAL_MEMORY_SIZE c = push_bit (VIRTUAL_ADDRESS_WIDTH c) 1"

definition NUM_FRAMES :: "config \<Rightarrow> int" where
  "NUM_FRAMES c = RAM_SIZE c div PAGE_SIZE c"

definition NUM_PAGES :: "config \<Rightarrow> int" where
  "NUM_PAGES c = push_bit (VIRTUAL_ADDRESS_WIDTH c - OFFSET_WIDTH c) 1"

text \<open>The number of table levels is the quotient of page-number bits by offset bits, rounded up.\<close>

definition TABLES_DEPTH :: "config \<Rightarrow> nat" where
  "TABLES_DEPTH c =
     (VIRTUAL_ADDRESS_WIDTH c - OFFSET_WIDTH c + (OFFSET_WIDTH c - 1)) div OFFSET_WIDTH c"

section \<open>The physical memory backend\<close>

text \<open>
  Modelled from the spec: the backend (PMread, PMwrite, PMevict, PMrestore) is an external
  collaborator whose code is not part of the sources. Section 4.2 of the specification gives
  its contract: a finite word-addressable frame array and a backing store of pages; read and
  write access one word; evict copies a frame out to the backing-store slot of a page;
  restore copies a page from the backing store into a frame, and a page that was never
  evicted restores as zeros (section 9). The backend is total. The specification gives it no
  behaviour at an address outside the array: there the model reads 0 and stores nothing.
  Every call is recorded in \<open>calls\<close>, most recent first, so that properties of the calls
  made (which, with which arguments, in which order) can be stated.

  All C integer types are modelled by \<open>int\<close>. The type word_t is declared in the missing
  header; it is taken to be the C int of 32 bits, and every conversion of the source to int
  or to word_t that can narrow a value is written out as \<open>int_cast\<close>, the wrap-around to
  the signed 32-bit range. Values of type long long and uint64_t are not wrapped: they stay
  far below 64 bits for address widths below 32. A negative value passed where the source
  has a uint64_t stands for the huge value it wraps to, which lies outside the frame array
  as well.
\<close>

definition int_cast :: "int \<Rightarrow> int" where
  "int_cast x = (x + 2147483648) mod 4294967296 - 2147483648"

datatype pm_call =
  PMread_call int
| PMwrite_call int int
| PMevict_call int int
| PMrestore_call int int

record pm =
  RAM :: "int list"
  swapFile :: "(int \<times> int list) list"
  calls :: "pm_call list"

definition in_RAM :: "pm \<Rightarrow> int \<Rightarrow> bool" where
  "in_RAM s a \<longleftrightarrow> 0 \<le> a \<and> a < int (length (RAM s))"

definition PMread :: "int \<Rightarrow> pm \<Rightarrow> int \<times> pm" where
  "PMread physicalAddress s =
     (if in_RAM s physicalAddress then RAM s ! nat physicalAddress else 0,
      s\<lparr>calls := PMread_call physicalAddress # calls s\<rparr>)"

definition PMwrite :: "int \<Rightarrow> int \<Rightarrow> pm \<Rightarrow> pm" where
  "PMwrite physicalAddress v s =
     s\<lparr>RAM := (if in_RAM s physicalAddress then (RAM s)[nat physicalAddress := v] else RAM s),
       calls := PMwrite_call physicalAddress v # calls s\<rparr>"

definition frame_in_RAM :: "config \<Rightarrow> pm \<Rightarrow> int \<Rightarrow> bool" where
  "frame_in_RAM c s frameIndex \<longleftrightarrow>
     0 \<le> frameIndex \<and> (frameIndex + 1) * PAGE_SIZE c \<le> int (length (RAM s))"

definition PMevict :: "config \<Rightarrow> int \<Rightarrow> int \<Rightarrow> pm \<Rightarrow> pm" where
  "PMevict c frameIndex evictedPageIndex s =
     s\<lparr>swapFile :=
         (if frame_in_RAM c s frameIndex
          then (evictedPageIndex,
                take (nat (PAGE_SIZE c)) (drop (nat (frameIndex * PAGE_SIZE c)) (RAM s))) # swapFile s
          else swapFile s),
       calls := PMevict_call frameIndex evictedPageIndex # calls s\<rparr>"

definition PMrestore :: "config \<Rightarrow> int \<Rightarrow> int \<Rightarrow> pm \<Rightarrow> pm" where
  "PMrestore c frameIndex restoredPageIndex s =
     s\<lparr>RAM :=
         (if frame_in_RAM c s frameIndex
          then take (nat (frameIndex * PAGE_SIZE c)) (RAM s)
               @ (case map_of (swapFile s) restoredPageIndex of
                    None \<Rightarrow> replicate (nat (PAGE_SIZE c)) 0
                  | Some page \<Rightarrow> page)
               @ drop (nat ((frameIndex + 1) * PAGE_SIZE c)) (RAM s)
          else RAM s),
       calls := PMrestore_call frameIndex restoredPageIndex # calls s\<rparr>"

text \<open>A memory of \<open>RAM_SIZE\<close> zero words, an empty backing store, no call made yet.\<close>

definition fresh :: "config \<Rightarrow> pm" where
  "fresh c = \<lparr>RAM = replicate (nat (RAM_SIZE c)) 0, swapFile = [], calls = []\<rparr>"

section \<open>The translation layer (VirtualMemory.cpp)\<close>

subsection \<open>emptyFrame and VMinitialize\<close>

function emptyFrame_for :: "config \<Rightarrow> int \<Rightarrow> int \<Rightarrow> pm \<Rightarrow> pm" where
  "emptyFrame_for c frameAddress offset s =
     (if offset < PAGE_SIZE c
      then emptyFrame_for c frameAddress (offset + 1) (PMwrite (frameAddress + offset) 0 s)
      else s)"
  by pat_completeness auto
termination
  by (relation "measure (\<lambda>(c, frameAddress, offset, s). nat (PAGE_SIZE c - offset))") auto

definition emptyFrame :: "config \<Rightarrow> int \<Rightarrow> pm \<Rightarrow> pm" where
  "emptyFrame c frameAddress s = emptyFrame_for c frameAddress 0 s"

definition VMinitialize :: "config \<Rightarrow> pm \<Rightarrow> pm" where
  "VMinitialize c s = (let rootFrameAddress = 0 in emptyFrame c rootFrameAddress s)"

subsection \<open>Address arithmetic\<close>

definition getOffset :: "config \<Rightarrow> int \<Rightarrow> int" where
  "getOffset c virtualAddress =
     (let mask = push_bit (OFFSET_WIDTH c) 1 - 1 in virtualAddress AND mask)"

definition findCyclicDistance :: "config \<Rightarrow> int \<Rightarrow> int \<Rightarrow> int" where
  "findCyclicDistance c pageSwappedIn pageToSwap =
     (let firstDistance = pageSwappedIn - pageToSwap;
          firstDistance = (if firstDistance < 0 then - firstDistance else firstDistance);
          secondDistance = NUM_PAGES c - firstDistance
      in if firstDistance > secondDistance then secondDistance else firstDistance)"

definition concatenatePath :: "config \<Rightarrow> int \<Rightarrow> int \<Rightarrow> int" where
  "concatenatePath c currentPath currentOffset =
     push_bit (OFFSET_WIDTH c) currentPath + currentOffset"

subsection \<open>findFrame: the depth-first search\<close>

text \<open>
  The variables that findFrame receives by reference and may assign. The parameter
  currFrameOffset is never read by findFrame and is left out; forbiddenFrame is passed by
  reference but only read, so it is an ordinary argument.
\<close>

record search =
  maxFrameIndex :: int
  maxCyclicalDistance :: int
  pageToEvict :: int
  parentOfPageToEvict :: int
  frameToEvict :: int
  currentFrameIndex :: int
  zeroFrameIndex :: int

text \<open>
  \<open>findFrame_for\<close> is the for loop over the rows of one frame together with the code
  after it, started at row \<open>i\<close> with the current value of allZeroFrames. The loop is inside
  the branch \<open>level < TABLES_DEPTH\<close> of findFrame, which the loop function repeats in its
  own condition. The test \<open>level == TABLES_DEPTH - 1\<close> is written \<open>level + 1 = TABLES_DEPTH\<close>.
  The narrowing conversions are those of line 72 (frameAddress is a word_t), line 87 (the
  distance is cast to int) and lines 107 and 114 (frameIndex is cast to word_t).
\<close>

function findFrame ::
    "config \<Rightarrow> int \<Rightarrow> int \<Rightarrow> nat \<Rightarrow> int \<Rightarrow> int \<Rightarrow> int \<Rightarrow> int \<Rightarrow> search \<Rightarrow> pm \<Rightarrow> search \<times> pm"
  and findFrame_for ::
    "config \<Rightarrow> int \<Rightarrow> int \<Rightarrow> nat \<Rightarrow> int \<Rightarrow> int \<Rightarrow> int \<Rightarrow> int \<Rightarrow> int \<Rightarrow> bool \<Rightarrow> search \<Rightarrow> pm
       \<Rightarrow> search \<times> pm"
where
  "findFrame c pageNumber parentAddress level frameIndex pathToPage forbiddenFrame addressToAdd
       st s =
     (if level < TABLES_DEPTH c
      then findFrame_for c pageNumber parentAddress level frameIndex pathToPage forbiddenFrame
             addressToAdd 0 True st s
      else (st, s))"
| "findFrame_for c pageNumber parentAddress level frameIndex pathToPage forbiddenFrame
       addressToAdd i allZeroFrames st s =
     (let frameAddress = int_cast (frameIndex * PAGE_SIZE c) in
      if level < TABLES_DEPTH c \<and> i < PAGE_SIZE c
      then
        (case PMread (frameAddress + i) s of (v, s1) \<Rightarrow>
           if v \<noteq> 0
           then
             (let st1 = (if v > maxFrameIndex st \<and> v < NUM_FRAMES c
                         then st\<lparr>maxFrameIndex := v\<rparr> else st);
                  updatedPathToPage = concatenatePath c pathToPage i;
                  st2 = (if level + 1 = TABLES_DEPTH c
                         then (let cyclicDistance =
                                     int_cast (findCyclicDistance c pageNumber updatedPathToPage)
                               in if cyclicDistance > maxCyclicalDistance st1
                                  then st1\<lparr>maxCyclicalDistance := cyclicDistance,
                                           pageToEvict := updatedPathToPage,
                                           parentOfPageToEvict := frameIndex,
                                           frameToEvict := v\<rparr>
                                  else st1)
                         else st1)
              in case findFrame c pageNumber (frameAddress + i) (level + 1) v updatedPathToPage
                        forbiddenFrame addressToAdd st2 s1 of
                   (st3, s3) \<Rightarrow>
                     if maxFrameIndex st3 = - 1
                     then (st3, s3)
                     else findFrame_for c pageNumber parentAddress level frameIndex pathToPage
                            forbiddenFrame addressToAdd (i + 1) False st3 s3)
           else findFrame_for c pageNumber parentAddress level frameIndex pathToPage
                  forbiddenFrame addressToAdd (i + 1) allZeroFrames st s1)
      else
        if allZeroFrames \<and> maxFrameIndex st \<noteq> - 1 \<and> frameIndex \<noteq> forbiddenFrame
        then
          (let st1 = st\<lparr>currentFrameIndex := int_cast frameIndex, maxFrameIndex := - 1,
                         zeroFrameIndex := frameIndex\<rparr>;
               s1 = (if parentAddress \<noteq> - 1 then PMwrite parentAddress 0 s else s)
           in (st1, PMwrite addressToAdd (int_cast frameIndex) s1))
        else (st, s))"
  by pat_completeness auto
termination
  by (relation "inv_image (less_than <*lex*> less_than) (\<lambda>x. case x of
         Inl (c, pn, pa, level, r) \<Rightarrow> (TABLES_DEPTH c - level, nat (PAGE_SIZE c) + 1)
       | Inr (c, pn, pa, level, fi, pp, ff, ad, i, r) \<Rightarrow>
           (TABLES_DEPTH c - level, nat (PAGE_SIZE c - i)))")
     auto

subsection \<open>addFrame: the allocator\<close>

text \<open>
  \<open>addFrame_locals\<close> holds the initial values of the local variables that addFrame
  hands to findFrame, together with the caller's currentFrameIndex; zeroFrameIndex starts
  as the uint64_t \<open>-1\<close>. The result of addFrame is the pair of the two variables it
  receives by reference, (currentFrameIndex, forbiddenFrame), and the memory. As in
  findFrame, the parameter currFrameOffset is never read and is left out. A frame index is
  narrowed to word_t where it is assigned to currentFrameIndex or passed to PMwrite as the
  word to store (lines 157, 158, 168 and 171).
\<close>

definition addFrame_locals :: "int \<Rightarrow> search" where
  "addFrame_locals currentFrameIndex0 =
     \<lparr>maxFrameIndex = 0, maxCyclicalDistance = - 1, pageToEvict = 0,
      parentOfPageToEvict = 0, frameToEvict = 0,
      currentFrameIndex = currentFrameIndex0, zeroFrameIndex = - 1\<rparr>"

definition addFrame ::
    "config \<Rightarrow> int \<Rightarrow> nat \<Rightarrow> int \<Rightarrow> int \<Rightarrow> int \<Rightarrow> pm \<Rightarrow> (int \<times> int) \<times> pm" where
  "addFrame c pageNumber level forbiddenFrame currentFrameIndex0 addressToAddTo s =
     (case findFrame c pageNumber (- 1) 0 0 0 forbiddenFrame addressToAddTo
             (addFrame_locals currentFrameIndex0) s of
        (st, s1) \<Rightarrow>
          if maxFrameIndex st = - 1
          then
            (if level + 1 = TABLES_DEPTH c
             then ((currentFrameIndex st, forbiddenFrame),
                   PMrestore c (zeroFrameIndex st) pageNumber s1)
             else ((currentFrameIndex st, zeroFrameIndex st),
                   emptyFrame c (zeroFrameIndex st * PAGE_SIZE c) s1))
          else if maxFrameIndex st + 1 < NUM_FRAMES c
          then
            (let s2 = PMwrite addressToAddTo (int_cast (maxFrameIndex st + 1)) s1 in
             if level + 1 = TABLES_DEPTH c
             then ((int_cast (maxFrameIndex st + 1), forbiddenFrame),
                   PMrestore c (maxFrameIndex st + 1) pageNumber s2)
             else ((int_cast (maxFrameIndex st + 1), maxFrameIndex st + 1),
                   emptyFrame c ((maxFrameIndex st + 1) * PAGE_SIZE c) s2))
          else
            (let s2 = PMevict c (frameToEvict st) (pageToEvict st) s1;
                 s3 = PMwrite (parentOfPageToEvict st * PAGE_SIZE c
                                 + getOffset c (pageToEvict st)) 0 s2;
                 s4 = PMwrite addressToAddTo (int_cast (frameToEvict st)) s3
             in if level + 1 = TABLES_DEPTH c
                then ((int_cast (frameToEvict st), forbiddenFrame),
                      PMrestore c (frameToEvict st) pageNumber s4)
                else ((int_cast (frameToEvict st), frameToEvict st),
                      emptyFrame c (frameToEvict st * PAGE_SIZE c) s4)))"

subsection \<open>translateVirtualAddress: the walk\<close>

text \<open>
  \<open>translate_level\<close> is the body of the loop over the levels: from the loop variables
  (frameIndex, forbiddenFrame) and the memory before the step to those after it.
\<close>

definition translate_level ::
    "config \<Rightarrow> int \<Rightarrow> nat \<Rightarrow> int \<Rightarrow> int \<Rightarrow> pm \<Rightarrow> (int \<times> int) \<times> pm" where
  "translate_level c virtualAddress level frameIndex forbiddenFrame s =
     (let bitsToExtract = push_bit (OFFSET_WIDTH c) 1 - 1;
          pageNumber = drop_bit (OFFSET_WIDTH c) virtualAddress;
          numBitsToShift = (TABLES_DEPTH c - level) * OFFSET_WIDTH c;
          currFrameOffset = drop_bit numBitsToShift virtualAddress AND bitsToExtract;
          addressToAddTo = frameIndex * PAGE_SIZE c + currFrameOffset
      in case PMread (frameIndex * PAGE_SIZE c + currFrameOffset) s of
           (frameIndex1, s1) \<Rightarrow>
             if frameIndex1 = 0
             then addFrame c pageNumber level forbiddenFrame frameIndex1 addressToAddTo s1
             else ((frameIndex1, forbiddenFrame), s1))"

function translate_for :: "config \<Rightarrow> int \<Rightarrow> nat \<Rightarrow> int \<Rightarrow> int \<Rightarrow> pm \<Rightarrow> int \<times> pm" where
  "translate_for c virtualAddress level frameIndex forbiddenFrame s =
     (if level < TABLES_DEPTH c
      then (case translate_level c virtualAddress level frameIndex forbiddenFrame s of
              ((frameIndex1, forbiddenFrame1), s1) \<Rightarrow>
                translate_for c virtualAddress (level + 1) frameIndex1 forbiddenFrame1 s1)
      else (frameIndex, s))"
  by pat_completeness auto
termination
  by (relation "measure (\<lambda>(c, v, level, r). TABLES_DEPTH c - level)") auto

definition translateVirtualAddress :: "config \<Rightarrow> int \<Rightarrow> pm \<Rightarrow> int \<times> pm" where
  "translateVirtualAddress c virtualAddress s =
     (case translate_for c virtualAddress 0 0 0 s of
        (frameIndex, s1) \<Rightarrow>
          (let pageOffset = getOffset c virtualAddress
           in (frameIndex * PAGE_SIZE c + pageOffset, s1)))"

subsection \<open>The public API\<close>

text \<open>
  A virtual address is an unsigned value, a \<open>nat\<close>. The out pointer of VMread is an
  \<open>int option\<close>: \<open>None\<close> is the null pointer, \<open>Some w\<close> a valid pointer whose target
  holds \<open>w\<close>. VMread returns its return value, the out pointer's target after the call,
  and the memory.
\<close>

definition VMread :: "config \<Rightarrow> nat \<Rightarrow> int option \<Rightarrow> pm \<Rightarrow> int \<times> int option \<times> pm" where
  "VMread c virtualAddress val s =
     (if val = None \<or> int virtualAddress \<ge> VIRTUAL_MEMORY_SIZE c
      then (0, val, s)
      else (case translateVirtualAddress c (int virtualAddress) s of
              (physicalAddress, s1) \<Rightarrow>
                (case PMread physicalAddress s1 of (w, s2) \<Rightarrow> (1, Some w, s2))))"

definition VMwrite :: "config \<Rightarrow> nat \<Rightarrow> int \<Rightarrow> pm \<Rightarrow> int \<times> pm" where
  "VMwrite c virtualAddress v s =
     (if int virtualAddress \<ge> VIRTUAL_MEMORY_SIZE c
      then (0, s)
      else (case translateVirtualAddress c (int virtualAddress) s of
              (physicalAddress, s1) \<Rightarrow> (1, PMwrite physicalAddress v s1)))"

text \<open>A client: a sequence of calls of the API on one memory, keeping only the memory.\<close>

datatype vm_op = Init | Read nat | Write nat int

fun vm_step :: "config \<Rightarrow> pm \<Rightarrow> vm_op \<Rightarrow> pm" where
  "vm_step c s Init = VMinitialize c s"
| "vm_step c s (Read v) = snd (snd (VMread c v (Some 0) s))"
| "vm_step c s (Write v w) = snd (VMwrite c v w s)"

definition vm_run :: "config \<Rightarrow> vm_op list \<Rightarrow> pm \<Rightarrow> pm" where
  "vm_run c ops s = foldl (vm_step c) s ops"

section \<open>Resident pages and the cyclic distance, as the specification words them\<close>

text \<open>
  \<open>peek\<close> is the word a PMread returns. The resident pages are the entries of the
  last-level tables reached from a table through non-zero entries, in ascending slot order:
  each with its page number (the path), the frame of the table holding the entry, and the
  frame holding the page. The rows of a table are addressed as the search addresses them
  (line 72).
\<close>

definition peek :: "int list \<Rightarrow> int \<Rightarrow> int" where
  "peek ram a = (if 0 \<le> a \<and> a < int (length ram) then ram ! nat a else 0)"

function resident :: "config \<Rightarrow> int list \<Rightarrow> nat \<Rightarrow> int \<Rightarrow> int \<Rightarrow> (int \<times> int \<times> int) list"
  and resident_for ::
    "config \<Rightarrow> int list \<Rightarrow> nat \<Rightarrow> int \<Rightarrow> int \<Rightarrow> int \<Rightarrow> (int \<times> int \<times> int) list"
where
  "resident c ram level frameIndex path =
     (if level < TABLES_DEPTH c then resident_for c ram level frameIndex path 0 else [])"
| "resident_for c ram level frameIndex path i =
     (if level < TABLES_DEPTH c \<and> i < PAGE_SIZE c
      then
        (let v = peek ram (int_cast (frameIndex * PAGE_SIZE c) + i);
             p = concatenatePath c path i
         in (if v \<noteq> 0
             then (if level + 1 = TABLES_DEPTH c then [(p, frameIndex, v)]
                   else resident c ram (level + 1) v p)
             else [])
            @ resident_for c ram level frameIndex path (i + 1))
      else [])"
  by pat_completeness auto
termination
  by (relation "inv_image (less_than <*lex*> less_than) (\<lambda>x. case x of
         Inl (c, ram, level, r) \<Rightarrow> (TABLES_DEPTH c - level, nat (PAGE_SIZE c) + 1)
       | Inr (c, ram, level, fi, pp, i) \<Rightarrow> (TABLES_DEPTH c - level, nat (PAGE_SIZE c - i)))")
     auto

definition cyclic_distance :: "config \<Rightarrow> int \<Rightarrow> int \<Rightarrow> int" where
  "cyclic_distance c q p = min \<bar>q - p\<bar> (NUM_PAGES c - \<bar>q - p\<bar>)"

text \<open>All references held by the tables of the tree: slot address and frame referenced.\<close>

function references :: "config \<Rightarrow> int list \<Rightarrow> nat \<Rightarrow> int \<Rightarrow> (int \<times> int) list"
  and references_for :: "config \<Rightarrow> int list \<Rightarrow> nat \<Rightarrow> int \<Rightarrow> int \<Rightarrow> (int \<times> int) list"
where
  "references c ram level frameIndex =
     (if level < TABLES_DEPTH c then references_for c ram level frameIndex 0 else [])"
| "references_for c ram level frameIndex i =
     (if level < TABLES_DEPTH c \<and> i < PAGE_SIZE c
      then
        (let v = peek ram (int_cast (frameIndex * PAGE_SIZE c) + i)
         in (if v \<noteq> 0
             then (int_cast (frameIndex * PAGE_SIZE c) + i, v) # references c ram (level + 1) v
             else [])
            @ references_for c ram level frameIndex (i + 1))
      else [])"
  by pat_completeness auto
termination
  by (relation "inv_image (less_than <*lex*> less_than) (\<lambda>x. case x of
         Inl (c, ram, level, r) \<Rightarrow> (TABLES_DEPTH c - level, nat (PAGE_SIZE c) + 1)
       | Inr (c, ram, level, fi, i) \<Rightarrow> (TABLES_DEPTH c - level, nat (PAGE_SIZE c - i)))")
     auto

section \<open>Auxiliary notions for the proofs\<close>

text \<open>
  The backend calls that fill the chosen frame at the end of addFrame, most recent first: one
  restore at the last level, \<open>PAGE_SIZE\<close> zero writes (emptyFrame) otherwise.
\<close>

text \<open>
  The effect of the backend on the memory, in terms of lists: \<open>poke\<close> is a write of one
  word, \<open>zero_words\<close> sets the \<open>n\<close> words from address \<open>a\<close> on to zero and leaves
  every other word as it is, \<open>stored_page\<close> is the content a restore finds for a page and
  \<open>restore_words\<close> puts it in a frame.
\<close>

definition poke :: "int list \<Rightarrow> int \<Rightarrow> int \<Rightarrow> int list" where
  "poke ram a v = (if 0 \<le> a \<and> a < int (length ram) then ram[nat a := v] else ram)"

definition zero_words :: "int list \<Rightarrow> int \<Rightarrow> int \<Rightarrow> int list" where
  "zero_words ram a n =
     map (\<lambda>j. if a \<le> int j \<and> int j < a + n then 0 else ram ! j) [0..<length ram]"

definition stored_page :: "config \<Rightarrow> (int \<times> int list) list \<Rightarrow> int \<Rightarrow> int list" where
  "stored_page c swap pageIndex =
     (case map_of swap pageIndex of
        None \<Rightarrow> replicate (nat (PAGE_SIZE c)) 0
      | Some page \<Rightarrow> page)"

definition restore_words :: "config \<Rightarrow> int list \<Rightarrow> int \<Rightarrow> int list \<Rightarrow> int list" where
  "restore_words c ram frameIndex page =
     (if 0 \<le> frameIndex \<and> (frameIndex + 1) * PAGE_SIZE c \<le> int (length ram)
      then take (nat (frameIndex * PAGE_SIZE c)) ram @ page
           @ drop (nat ((frameIndex + 1) * PAGE_SIZE c)) ram
      else ram)"

definition fill_calls :: "config \<Rightarrow> nat \<Rightarrow> int \<Rightarrow> int \<Rightarrow> pm_call list" where
  "fill_calls c level frameIndex pageNumber =
     (if level + 1 = TABLES_DEPTH c then [PMrestore_call frameIndex pageNumber]
      else rev (map (\<lambda>offset. PMwrite_call (frameIndex * PAGE_SIZE c + offset) 0)
                  [0..PAGE_SIZE c - 1]))"

text \<open>
  The running best of the search: its distance and the candidate (page, parent frame,
  frame). \<open>seen_distance\<close> is the distance as line 87 computes it, cast to int.
  \<open>keep_farther\<close> is the update of lines 87-93: a candidate replaces the best only
  when its distance is strictly greater. \<open>row_update\<close> is what lines 79-94 do to the search
  variables at a non-zero row.
\<close>

definition victim :: "search \<Rightarrow> int \<times> int \<times> int \<times> int" where
  "victim st = (maxCyclicalDistance st, pageToEvict st, parentOfPageToEvict st, frameToEvict st)"

definition seen_distance :: "config \<Rightarrow> int \<Rightarrow> int \<Rightarrow> int" where
  "seen_distance c q p = int_cast (findCyclicDistance c q p)"

definition keep_farther ::
    "config \<Rightarrow> int \<Rightarrow> int \<times> int \<times> int \<times> int \<Rightarrow> int \<times> int \<times> int \<Rightarrow> int \<times> int \<times> int \<times> int" where
  "keep_farther c q acc x =
     (if seen_distance c q (fst x) > fst acc then (seen_distance c q (fst x), x) else acc)"

definition row_update :: "config \<Rightarrow> int \<Rightarrow> nat \<Rightarrow> int \<Rightarrow> int \<Rightarrow> int \<Rightarrow> search \<Rightarrow> search" where
  "row_update c q level frameIndex p v st =
     (let st1 = (if v > maxFrameIndex st \<and> v < NUM_FRAMES c then st\<lparr>maxFrameIndex := v\<rparr> else st)
      in if level + 1 = TABLES_DEPTH c
         then (let cyclicDistance = int_cast (findCyclicDistance c q p)
               in if cyclicDistance > maxCyclicalDistance st1
                  then st1\<lparr>maxCyclicalDistance := cyclicDistance, pageToEvict := p,
                           parentOfPageToEvict := frameIndex, frameToEvict := v\<rparr>
                  else st1)
         else st1)"

text \<open>
  What a search started with a non-negative maxFrameIndex establishes. Either it adopted an
  empty table: maxFrameIndex is \<open>-1\<close>, the adopted frame is in zeroFrameIndex and,
  narrowed to word_t, in currentFrameIndex, it is not the forbidden frame, the last backend
  call wrote it to addressToAdd and the memory holds it there. Or it adopted none: memory and backing store are unchanged and the running
  best is the fold of \<open>keep_farther\<close> over the resident pages below the frame searched.
\<close>

definition search_post ::
    "config \<Rightarrow> int \<Rightarrow> int \<Rightarrow> int \<Rightarrow> search \<Rightarrow> pm \<Rightarrow> (int \<times> int \<times> int) list \<Rightarrow> search \<Rightarrow> pm \<Rightarrow> bool"
where
  "search_post c q forb addr st s xs st' s' \<longleftrightarrow>
     maxFrameIndex st' = - 1 \<and> currentFrameIndex st' = int_cast (zeroFrameIndex st')
       \<and> zeroFrameIndex st' \<noteq> forb
       \<and> (\<exists>rest. calls s' = PMwrite_call addr (int_cast (zeroFrameIndex st')) # rest)
       \<and> poke (RAM s') addr (int_cast (zeroFrameIndex st')) = RAM s'
     \<or> 0 \<le> maxFrameIndex st' \<and> RAM s' = RAM s \<and> swapFile s' = swapFile s
       \<and> victim st' = foldl (keep_farther c q) (victim st) xs"

text \<open>
  \<open>span c level\<close> is the number of pages below one table of the given level. A list of
  resident pages lies \<open>within lo hi\<close> when its page numbers increase strictly and stay in
  the interval from \<open>lo\<close> up to, not including, \<open>hi\<close>.
\<close>

definition span :: "config \<Rightarrow> nat \<Rightarrow> int" where
  "span c level = PAGE_SIZE c ^ (TABLES_DEPTH c - level)"

definition within :: "int \<Rightarrow> int \<Rightarrow> (int \<times> int \<times> int) list \<Rightarrow> bool" where
  "within lo hi xs \<longleftrightarrow>
     sorted_wrt (<) (map fst xs) \<and> (\<forall>x\<in>set xs. lo \<le> fst x \<and> fst x < hi)"

section \<open>Concrete configurations and runs\<close>

text \<open>
  The representative configuration of the specification's scenarios (four frames, four
  table levels), the same with one more physical address bit (eight frames), a two-level
  configuration with four frames and a three-level configuration with eight frames.
\<close>

definition config_S1 :: config where
  "config_S1 = \<lparr>OFFSET_WIDTH = 1, PHYSICAL_ADDRESS_WIDTH = 3, VIRTUAL_ADDRESS_WIDTH = 5\<rparr>"

definition config_S1_wide :: config where
  "config_S1_wide = \<lparr>OFFSET_WIDTH = 1, PHYSICAL_ADDRESS_WIDTH = 4, VIRTUAL_ADDRESS_WIDTH = 5\<rparr>"

definition config_2level :: config where
  "config_2level = \<lparr>OFFSET_WIDTH = 1, PHYSICAL_ADDRESS_WIDTH = 3, VIRTUAL_ADDRESS_WIDTH = 3\<rparr>"

definition config_3level :: config where
  "config_3level = \<lparr>OFFSET_WIDTH = 1, PHYSICAL_ADDRESS_WIDTH = 4, VIRTUAL_ADDRESS_WIDTH = 4\<rparr>"

text \<open>Scenario S1 in the stated configuration.\<close>

definition S1_memory :: pm where
  "S1_memory = vm_run config_S1 [Init, Write 13 3] (fresh config_S1)"

text \<open>Two writes in the two-level configuration.\<close>

definition two_writes_memory :: pm where
  "two_writes_memory =
     vm_run config_2level [Init, Write 0 20, Write 4 21] (fresh config_2level)"

text \<open>Runs of writes in the three-level configuration.\<close>

definition seven_writes_memory :: pm where
  "seven_writes_memory =
     vm_run config_3level
       [Init, Write 1 9, Write 9 9, Write 13 9, Write 1 9, Write 5 9, Write 1 9, Write 9 9]
       (fresh config_3level)"

definition eight_writes_memory :: pm where
  "eight_writes_memory = snd (VMwrite config_3level 5 9 seven_writes_memory)"

definition twin_reference_memory :: pm where
  "twin_reference_memory =
     vm_run config_3level
       [Init, Write 4 6, Write 12 7, Write 8 7, Write 5 7, Write 2 7, Write 0 3, Write 8 7,
        Write 13 7]
       (fresh config_3level)"

definition five_writes_memory :: pm where
  "five_writes_memory =
     vm_run config_3level [Init, Write 1 9, Write 3 9, Write 5 9, Write 13 9, Write 5 9]
       (fresh config_3level)"

section \<open>Properties of the search\<close>

declare findFrame.simps [simp del] findFrame_for.simps [simp del]
  resident.simps [simp del] resident_for.simps [simp del]
  references.simps [simp del] references_for.simps [simp del]
  emptyFrame_for.simps [simp del] translate_for.simps [simp del]

lemma PMread_eq: "PMread a s = (peek (RAM s) a, s\<lparr>calls := PMread_call a # calls s\<rparr>)"
  by (simp add: PMread_def peek_def in_RAM_def)

lemma row_update_max: "0 \<le> maxFrameIndex st \<Longrightarrow> 0 \<le> maxFrameIndex (row_update c q level fi p v st)"
  by (simp add: row_update_def Let_def)

lemma row_update_victim:
  "victim (row_update c q level fi p v st) =
     (if level + 1 = TABLES_DEPTH c then keep_farther c q (victim st) (p, fi, v) else victim st)"
  by (simp add: row_update_def Let_def victim_def keep_farther_def seen_distance_def)

lemma findFrame_for_stop:
  "\<not> (level < TABLES_DEPTH c \<and> i < PAGE_SIZE c) \<Longrightarrow>
   findFrame_for c q pa level fi path forb addr i az st s =
     (if az \<and> maxFrameIndex st \<noteq> - 1 \<and> fi \<noteq> forb
      then (st\<lparr>currentFrameIndex := int_cast fi, maxFrameIndex := - 1, zeroFrameIndex := fi\<rparr>,
            PMwrite addr (int_cast fi) (if pa \<noteq> - 1 then PMwrite pa 0 s else s))
      else (st, s))"
  by (subst findFrame_for.simps, cases "level < TABLES_DEPTH c") (simp_all add: Let_def)

lemma findFrame_for_zero:
  "level < TABLES_DEPTH c \<Longrightarrow> i < PAGE_SIZE c \<Longrightarrow> peek (RAM s) (int_cast (fi * PAGE_SIZE c) + i) = 0 \<Longrightarrow>
   findFrame_for c q pa level fi path forb addr i az st s =
     findFrame_for c q pa level fi path forb addr (i + 1) az st
       (s\<lparr>calls := PMread_call (int_cast (fi * PAGE_SIZE c) + i) # calls s\<rparr>)"
  by (subst findFrame_for.simps) (simp add: Let_def PMread_eq)

lemma findFrame_for_nonzero:
  "level < TABLES_DEPTH c \<Longrightarrow> i < PAGE_SIZE c \<Longrightarrow> peek (RAM s) (int_cast (fi * PAGE_SIZE c) + i) = v \<Longrightarrow> v \<noteq> 0 \<Longrightarrow>
   findFrame_for c q pa level fi path forb addr i az st s =
     (case findFrame c q (int_cast (fi * PAGE_SIZE c) + i) (level + 1) v (concatenatePath c path i) forb addr
             (row_update c q level fi (concatenatePath c path i) v st)
             (s\<lparr>calls := PMread_call (int_cast (fi * PAGE_SIZE c) + i) # calls s\<rparr>) of
        (st3, s3) \<Rightarrow>
          if maxFrameIndex st3 = - 1 then (st3, s3)
          else findFrame_for c q pa level fi path forb addr (i + 1) False st3 s3)"
  by (subst findFrame_for.simps) (simp add: Let_def PMread_eq row_update_def)

lemma resident_for_stop:
  "\<not> (level < TABLES_DEPTH c \<and> i < PAGE_SIZE c) \<Longrightarrow> resident_for c ram level fi path i = []"
  by (subst resident_for.simps, cases "level < TABLES_DEPTH c") simp_all

lemma resident_for_step:
  "level < TABLES_DEPTH c \<Longrightarrow> i < PAGE_SIZE c \<Longrightarrow>
   resident_for c ram level fi path i =
     (if peek ram (int_cast (fi * PAGE_SIZE c) + i) \<noteq> 0
      then (if level + 1 = TABLES_DEPTH c
            then [(concatenatePath c path i, fi, peek ram (int_cast (fi * PAGE_SIZE c) + i))]
            else resident c ram (level + 1) (peek ram (int_cast (fi * PAGE_SIZE c) + i)) (concatenatePath c path i))
      else [])
     @ resident_for c ram level fi path (i + 1)"
  by (subst resident_for.simps) (simp add: Let_def)

lemma RAM_PMwrite: "RAM (PMwrite a v s) = poke (RAM s) a v"
  by (simp add: PMwrite_def poke_def in_RAM_def)

lemma swapFile_PMwrite: "swapFile (PMwrite a v s) = swapFile s"
  by (simp add: PMwrite_def)

lemma calls_PMwrite: "calls (PMwrite a v s) = PMwrite_call a v # calls s"
  by (simp add: PMwrite_def)

lemma length_poke: "length (poke ram a v) = length ram"
  by (simp add: poke_def)

lemma poke_twice: "poke (poke ram a v) a v = poke ram a v"
  by (simp add: poke_def)

lemma adoption_post:
  "fi \<noteq> forb \<Longrightarrow>
   search_post c q forb addr st0 s0 xs
     (st\<lparr>currentFrameIndex := int_cast fi, maxFrameIndex := - 1, zeroFrameIndex := fi\<rparr>)
     (PMwrite addr (int_cast fi) s1)"
  by (simp add: search_post_def calls_PMwrite RAM_PMwrite poke_twice)

lemma no_adoption_post:
  "0 \<le> maxFrameIndex st \<Longrightarrow> search_post c q forb addr st s [] st s"
  by (simp add: search_post_def)

lemma search_post_adopted:
  "search_post c q forb addr st s xs st' s' \<Longrightarrow> maxFrameIndex st' = - 1 \<Longrightarrow>
   search_post c q forb addr st0 s0 ys st' s'"
  by (auto simp: search_post_def)

lemma findFrame_search_post:
  "0 \<le> maxFrameIndex st \<Longrightarrow>
   findFrame c q pa level fi path forb addr st s = (st', s') \<Longrightarrow>
   search_post c q forb addr st s (resident c (RAM s) level fi path) st' s'"
  and findFrame_for_search_post:
  "0 \<le> maxFrameIndex st \<Longrightarrow>
   findFrame_for c q pa level fi path forb addr i az st s = (st', s') \<Longrightarrow>
   search_post c q forb addr st s (resident_for c (RAM s) level fi path i) st' s'"
proof (induct c q pa level fi path forb addr st s and c q pa level fi path forb addr i az st s
       arbitrary: st' s' and st' s' rule: findFrame_findFrame_for.induct)
  case (1 c q pa level fi path forb addr st s)
  show ?case
  proof (cases "level < TABLES_DEPTH c")
    case True
    with "1.prems" have "findFrame_for c q pa level fi path forb addr 0 True st s = (st', s')"
      by (simp add: findFrame.simps)
    from "1.hyps"[OF True "1.prems"(1) this] True show ?thesis
      by (simp add: resident.simps)
  next
    case False
    with "1.prems" show ?thesis
      by (simp add: findFrame.simps resident.simps search_post_def)
  qed
next
  case (2 c q pa level fi path forb addr i az st s)
  let ?a = "int_cast (fi * PAGE_SIZE c) + i"
  let ?s1 = "s\<lparr>calls := PMread_call ?a # calls s\<rparr>"
  let ?v = "peek (RAM s) ?a"
  let ?p = "concatenatePath c path i"
  show ?case
  proof (cases "level < TABLES_DEPTH c \<and> i < PAGE_SIZE c")
    case False
    show ?thesis
    proof (cases "az \<and> maxFrameIndex st \<noteq> - 1 \<and> fi \<noteq> forb")
      case True
      with "2.prems"(2) False have eqs:
        "st' = st\<lparr>currentFrameIndex := int_cast fi, maxFrameIndex := - 1, zeroFrameIndex := fi\<rparr>"
        "s' = PMwrite addr (int_cast fi) (if pa \<noteq> - 1 then PMwrite pa 0 s else s)"
        by (simp_all add: findFrame_for_stop)
      from True have ne: "fi \<noteq> forb" by simp
      show ?thesis unfolding eqs by (rule adoption_post[OF ne])
    next
      case nope: False
      with "2.prems"(2) False have eqs: "st' = st" "s' = s"
        by (simp_all add: findFrame_for_stop)
      from False have nil: "resident_for c (RAM s) level fi path i = []"
        by (rule resident_for_stop)
      show ?thesis unfolding eqs nil by (rule no_adoption_post[OF "2.prems"(1)])
    qed
  next
    case True
    then have lv: "level < TABLES_DEPTH c" and iv: "i < PAGE_SIZE c" by simp_all
    have rd: "(?v, ?s1) = PMread (int_cast (fi * PAGE_SIZE c) + i) s" by (simp add: PMread_eq)
    show ?thesis
    proof (cases "?v = 0")
      case True
      then have nz: "\<not> ?v \<noteq> 0" by simp
      from "2.prems"(2) have "findFrame_for c q pa level fi path forb addr (i + 1) az st ?s1 = (st', s')"
        by (simp add: findFrame_for_zero[OF lv iv True])
      from "2.hyps"(3)[OF refl \<open>level < TABLES_DEPTH c \<and> i < PAGE_SIZE c\<close> rd nz "2.prems"(1) this]
      show ?thesis using True
        by (simp add: resident_for_step[OF lv iv] search_post_def)
    next
      case False
      let ?st2 = "row_update c q level fi ?p ?v st"
      obtain st3 s3 where ff: "findFrame c q ?a (level + 1) ?v ?p forb addr ?st2 ?s1 = (st3, s3)"
        by (cases "findFrame c q ?a (level + 1) ?v ?p forb addr ?st2 ?s1")
      have st2: "?st2 = (if level + 1 = TABLES_DEPTH c
            then let cyclicDistance = int_cast (findCyclicDistance c q ?p)
                 in if maxCyclicalDistance (if maxFrameIndex st < ?v \<and> ?v < NUM_FRAMES c
            then st\<lparr>maxFrameIndex := ?v\<rparr> else st) < cyclicDistance
                    then (if maxFrameIndex st < ?v \<and> ?v < NUM_FRAMES c
            then st\<lparr>maxFrameIndex := ?v\<rparr> else st)\<lparr>maxCyclicalDistance := cyclicDistance,
                              pageToEvict := ?p,
                              parentOfPageToEvict := fi,
                              frameToEvict := ?v\<rparr>
                    else (if maxFrameIndex st < ?v \<and> ?v < NUM_FRAMES c
            then st\<lparr>maxFrameIndex := ?v\<rparr> else st)
            else (if maxFrameIndex st < ?v \<and> ?v < NUM_FRAMES c
            then st\<lparr>maxFrameIndex := ?v\<rparr> else st))"
        by (simp add: row_update_def Let_def)
      have m2: "0 \<le> maxFrameIndex ?st2" using "2.prems"(1) by (rule row_update_max)
      have p3: "search_post c q forb addr ?st2 ?s1 (resident c (RAM ?s1) (level + 1) ?v ?p) st3 s3"
        using "2.hyps"(1)[OF refl \<open>level < TABLES_DEPTH c \<and> i < PAGE_SIZE c\<close> rd False refl refl st2 m2 ff] .
      have step: "(if level + 1 = TABLES_DEPTH c then [(?p, fi, ?v)]
                   else resident c (RAM s) (level + 1) ?v ?p) = X \<Longrightarrow>
                  victim st3 = foldl (keep_farther c q) (victim ?st2) (resident c (RAM s) (level + 1) ?v ?p) \<Longrightarrow>
                  victim st3 = foldl (keep_farther c q) (victim st) X" for X
        by (auto simp: row_update_victim resident.simps split: if_splits)
      show ?thesis
      proof (cases "maxFrameIndex st3 = - 1")
        case True
        with "2.prems"(2) ff have "st' = st3" "s' = s3"
          by (simp_all add: findFrame_for_nonzero[OF lv iv refl False])
        with p3 True show ?thesis by (auto simp: search_post_def)
      next
        case nadopt: False
        with "2.prems"(2) ff have
          rest: "findFrame_for c q pa level fi path forb addr (i + 1) False st3 s3 = (st', s')"
          by (simp add: findFrame_for_nonzero[OF lv iv refl False])
        from p3 nadopt have m3: "0 \<le> maxFrameIndex st3" and r3: "RAM s3 = RAM s"
          and sw3: "swapFile s3 = swapFile s"
          and v3: "victim st3 = foldl (keep_farther c q) (victim ?st2) (resident c (RAM s) (level + 1) ?v ?p)"
          by (auto simp: search_post_def)
        have p4: "search_post c q forb addr st3 s3 (resident_for c (RAM s3) level fi path (i + 1)) st' s'"
          using "2.hyps"(2)[OF refl \<open>level < TABLES_DEPTH c \<and> i < PAGE_SIZE c\<close> rd False refl refl st2 ff[symmetric] nadopt m3 rest] .
        show ?thesis using p4 r3 sw3 step[OF refl v3] False
          by (auto simp: search_post_def resident_for_step[OF lv iv])
      qed
    qed
  qed
qed

lemma foldl_keep_farther:
  "foldl (keep_farther c q) (d0, x0) xs = (d, x) \<Longrightarrow>
     d = d0 \<and> x = x0 \<and> (\<forall>y\<in>set xs. seen_distance c q (fst y) \<le> d0)
   \<or> d0 < d \<and> d = seen_distance c q (fst x)
     \<and> (\<exists>before after. xs = before @ x # after
           \<and> (\<forall>y\<in>set before. seen_distance c q (fst y) < d)
           \<and> (\<forall>y\<in>set after. seen_distance c q (fst y) \<le> d))"
proof (induct xs arbitrary: d x rule: rev_induct)
  case Nil
  then show ?case by simp
next
  case (snoc y xs)
  obtain d1 x1 where f1: "foldl (keep_farther c q) (d0, x0) xs = (d1, x1)"
    by (cases "foldl (keep_farther c q) (d0, x0) xs")
  note IH = snoc.hyps[OF f1]
  from snoc.prems f1 have k: "keep_farther c q (d1, x1) y = (d, x)" by simp
  show ?case
  proof (cases "seen_distance c q (fst y) > d1")
    case True
    with k have dx: "d = seen_distance c q (fst y)" "x = y"
      by (auto simp: keep_farther_def)
    from IH have le: "d0 \<le> d1" by auto
    have all: "\<forall>z\<in>set xs. seen_distance c q (fst z) \<le> d1"
    proof
      fix z assume z: "z \<in> set xs"
      from IH show "seen_distance c q (fst z) \<le> d1"
      proof (elim disjE conjE exE)
        assume "d1 = d0" "\<forall>y\<in>set xs. seen_distance c q (fst y) \<le> d0"
        with z show ?thesis by simp
      next
        fix before after
        assume h: "d1 = seen_distance c q (fst x1)" "xs = before @ x1 # after"
          "\<forall>y\<in>set before. seen_distance c q (fst y) < d1"
          "\<forall>y\<in>set after. seen_distance c q (fst y) \<le> d1"
        from z h(2) have "z \<in> set before \<or> z = x1 \<or> z \<in> set after" by auto
        then show ?thesis
        proof (elim disjE)
          assume "z \<in> set before"
          with h(3) have "seen_distance c q (fst z) < d1" by (rule bspec)
          then show ?thesis by simp
        next
          assume "z = x1"
          with h(1) show ?thesis by simp
        next
          assume "z \<in> set after"
          with h(4) show ?thesis by (rule bspec)
        qed
      qed
    qed
    have "xs @ [y] = xs @ x # []" using dx by simp
    moreover have "\<forall>z\<in>set xs. seen_distance c q (fst z) < d" using all True dx by auto
    ultimately have "\<exists>before after. xs @ [y] = before @ x # after
           \<and> (\<forall>y\<in>set before. seen_distance c q (fst y) < d)
           \<and> (\<forall>y\<in>set after. seen_distance c q (fst y) \<le> d)"
      by (intro exI[of _ xs] exI[of _ "[]"]) simp
    with le True dx show ?thesis by simp
  next
    case False
    with k have dx: "d = d1" "x = x1" by (simp_all add: keep_farther_def)
    from IH show ?thesis
    proof
      assume "d1 = d0 \<and> x1 = x0 \<and> (\<forall>y\<in>set xs. seen_distance c q (fst y) \<le> d0)"
      with False dx show ?thesis by auto
    next
      assume a: "d0 < d1 \<and> d1 = seen_distance c q (fst x1)
     \<and> (\<exists>before after. xs = before @ x1 # after
           \<and> (\<forall>y\<in>set before. seen_distance c q (fst y) < d1)
           \<and> (\<forall>y\<in>set after. seen_distance c q (fst y) \<le> d1))"
      then obtain before after where ba: "xs = before @ x1 # after"
           "\<forall>y\<in>set before. seen_distance c q (fst y) < d1"
           "\<forall>y\<in>set after. seen_distance c q (fst y) \<le> d1" by blast
      have "xs @ [y] = before @ x # (after @ [y])" using ba dx by simp
      moreover have "\<forall>z\<in>set (after @ [y]). seen_distance c q (fst z) \<le> d"
        using ba False dx by auto
      ultimately have "\<exists>before after. xs @ [y] = before @ x # after
           \<and> (\<forall>y\<in>set before. seen_distance c q (fst y) < d)
           \<and> (\<forall>y\<in>set after. seen_distance c q (fst y) \<le> d)"
        using ba(2) dx by blast
      with a dx show ?thesis by simp
    qed
  qed
qed

lemma findCyclicDistance_eq: "findCyclicDistance c q p = cyclic_distance c q p"
  by (simp add: findCyclicDistance_def cyclic_distance_def Let_def min_def abs_if)

lemma int_cast_id: "- 2147483648 \<le> x \<Longrightarrow> x < 2147483648 \<Longrightarrow> int_cast x = x"
  by (simp add: int_cast_def)

lemma seen_distance_eq:
  assumes "0 \<le> q" "q < 2147483648" "0 \<le> p" "p < 2147483648"
    and "0 \<le> NUM_PAGES c" "NUM_PAGES c \<le> 2147483648"
  shows "seen_distance c q p = cyclic_distance c q p"
proof -
  have "- 2147483648 \<le> cyclic_distance c q p" "cyclic_distance c q p < 2147483648"
    using assms by (auto simp: cyclic_distance_def min_def abs_if)
  then show ?thesis
    by (simp add: seen_distance_def findCyclicDistance_eq int_cast_id)
qed

lemma RAM_emptyFrame_for:
  "RAM (emptyFrame_for c a off s) =
     map (\<lambda>j. if a + off \<le> int j \<and> int j < a + PAGE_SIZE c then 0 else RAM s ! j)
       [0..<length (RAM s)]"
proof (induct c a off s rule: emptyFrame_for.induct)
  case (1 c a off s)
  show ?case
  proof (cases "off < PAGE_SIZE c")
    case True
    have "RAM (emptyFrame_for c a off s)
            = RAM (emptyFrame_for c a (off + 1) (PMwrite (a + off) 0 s))"
      using True by (subst emptyFrame_for.simps) simp
    also have "\<dots> = map (\<lambda>j. if a + (off + 1) \<le> int j \<and> int j < a + PAGE_SIZE c then 0
                           else poke (RAM s) (a + off) 0 ! j) [0..<length (RAM s)]"
      using "1.hyps"[OF True] by (simp add: RAM_PMwrite length_poke)
    also have "\<dots> = map (\<lambda>j. if a + off \<le> int j \<and> int j < a + PAGE_SIZE c then 0
                           else RAM s ! j) [0..<length (RAM s)]"
      using True by (auto simp: poke_def nth_list_update)
    finally show ?thesis .
  next
    case False
    have "map (\<lambda>j. if a + off \<le> int j \<and> int j < a + PAGE_SIZE c then 0 else RAM s ! j)
            [0..<length (RAM s)] = map (\<lambda>j. RAM s ! j) [0..<length (RAM s)]"
      using False by auto
    then show ?thesis using False
      by (subst emptyFrame_for.simps) (simp add: map_nth)
  qed
qed

lemma RAM_emptyFrame: "RAM (emptyFrame c a s) = zero_words (RAM s) a (PAGE_SIZE c)"
  by (simp add: emptyFrame_def RAM_emptyFrame_for zero_words_def)

lemma swapFile_emptyFrame_for: "swapFile (emptyFrame_for c a off s) = swapFile s"
proof (induct c a off s rule: emptyFrame_for.induct)
  case (1 c a off s)
  then show ?case
    by (subst emptyFrame_for.simps) (simp add: swapFile_PMwrite)
qed

lemma swapFile_emptyFrame: "swapFile (emptyFrame c a s) = swapFile s"
  by (simp add: emptyFrame_def swapFile_emptyFrame_for)

lemma RAM_PMrestore:
  "RAM (PMrestore c f q s) = restore_words c (RAM s) f (stored_page c (swapFile s) q)"
  by (simp add: PMrestore_def restore_words_def stored_page_def frame_in_RAM_def)

lemma swapFile_PMrestore: "swapFile (PMrestore c f q s) = swapFile s"
  by (simp add: PMrestore_def)

lemma RAM_PMevict: "RAM (PMevict c f p s) = RAM s"
  by (simp add: PMevict_def)

lemma calls_emptyFrame_for:
  "calls (emptyFrame_for c a off s) =
     rev (map (\<lambda>offset. PMwrite_call (a + offset) 0) [off..PAGE_SIZE c - 1]) @ calls s"
proof (induct c a off s rule: emptyFrame_for.induct)
  case (1 c a off s)
  show ?case
  proof (cases "off < PAGE_SIZE c")
    case True
    then have "[off..PAGE_SIZE c - 1] = off # [off + 1..PAGE_SIZE c - 1]"
      by (simp add: upto_rec1)
    with "1.hyps"[OF True] True show ?thesis
      by (subst emptyFrame_for.simps) (simp add: PMwrite_def)
  next
    case False
    then show ?thesis by (subst emptyFrame_for.simps) simp
  qed
qed

lemma calls_fill:
  "calls (if level + 1 = TABLES_DEPTH c then PMrestore c f q s else emptyFrame c (f * PAGE_SIZE c) s)
     = fill_calls c level f q @ calls s"
  by (simp add: fill_calls_def PMrestore_def emptyFrame_def calls_emptyFrame_for)

lemma findFrame_root_post:
  assumes "findFrame c q (- 1) 0 0 0 forb addr (addFrame_locals cur) s = (st, s1)"
  shows "search_post c q forb addr (addFrame_locals cur) s (resident c (RAM s) 0 0 0) st s1"
  by (rule findFrame_search_post[OF _ assms]) (simp add: addFrame_locals_def)


text \<open>The resident pages are listed in increasing order of page number.\<close>

lemma PAGE_SIZE_pos: "0 < PAGE_SIZE c"
  by (simp add: PAGE_SIZE_def push_bit_eq_mult)

lemma span_pos: "0 < span c level"
  by (simp add: span_def PAGE_SIZE_pos)

lemma span_step: "level < TABLES_DEPTH c \<Longrightarrow> span c level = PAGE_SIZE c * span c (level + 1)"
proof -
  assume "level < TABLES_DEPTH c"
  then have "TABLES_DEPTH c - level = Suc (TABLES_DEPTH c - (level + 1))" by simp
  then show ?thesis by (simp add: span_def)
qed

lemma span_last: "level + 1 = TABLES_DEPTH c \<Longrightarrow> span c (level + 1) = 1"
  by (simp add: span_def)

lemma concatenatePath_eq: "concatenatePath c path i = path * PAGE_SIZE c + i"
  by (simp add: concatenatePath_def PAGE_SIZE_def push_bit_eq_mult)

lemma within_Nil: "within lo hi []"
  by (simp add: within_def)

lemma within_append:
  "within lo mid xs \<Longrightarrow> within mid hi ys \<Longrightarrow> lo \<le> mid \<Longrightarrow> mid \<le> hi \<Longrightarrow> within lo hi (xs @ ys)"
  by (fastforce simp: within_def sorted_wrt_append)

lemma within_single: "lo \<le> p \<Longrightarrow> p < hi \<Longrightarrow> within lo hi [(p, a, b)]"
  by (simp add: within_def)

lemma resident_within:
  "within (path * span c level) ((path + 1) * span c level) (resident c ram level fi path)"
  and resident_for_within:
  "0 \<le> i \<Longrightarrow>
   within ((path * PAGE_SIZE c + i) * span c (level + 1)) ((path + 1) * span c level)
     (resident_for c ram level fi path i)"
proof (induct c ram level fi path and c ram level fi path i rule: resident_resident_for.induct)
  case (1 c ram level fi path)
  show ?case
  proof (cases "level < TABLES_DEPTH c")
    case True
    from "1.hyps"[OF True] have
      "within ((path * PAGE_SIZE c + 0) * span c (level + 1)) ((path + 1) * span c level)
         (resident_for c ram level fi path 0)" by simp
    then show ?thesis using True
      by (simp add: resident.simps span_step[OF True] mult.assoc)
  next
    case False
    then show ?thesis by (simp add: resident.simps within_Nil)
  qed
next
  case (2 c ram level fi path i)
  let ?S = "span c (level + 1)"
  let ?v = "peek ram (int_cast (fi * PAGE_SIZE c) + i)"
  let ?p = "concatenatePath c path i"
  show ?case
  proof (cases "level < TABLES_DEPTH c \<and> i < PAGE_SIZE c")
    case False
    then show ?thesis by (simp add: resident_for_stop within_Nil)
  next
    case True
    then have lv: "level < TABLES_DEPTH c" and iv: "i < PAGE_SIZE c" by simp_all
    have S: "0 < ?S" by (rule span_pos)
    let ?lo = "(path * PAGE_SIZE c + i) * ?S"
    let ?mid = "(path * PAGE_SIZE c + (i + 1)) * ?S"
    let ?hi = "(path + 1) * span c level"
    have hi: "?hi = (path * PAGE_SIZE c + PAGE_SIZE c) * ?S"
      by (simp add: span_step[OF lv] algebra_simps)
    have lo_mid: "?lo \<le> ?mid" using S by (simp add: algebra_simps)
    have mid_hi: "?mid \<le> ?hi" unfolding hi using S iv
      by (intro mult_right_mono) simp_all
    have rest: "within ?mid ?hi (resident_for c ram level fi path (i + 1))"
      using "2.hyps"(2)[OF True refl refl] "2.prems" by simp
    have first: "within ?lo ?mid
       (if ?v \<noteq> 0
        then (if level + 1 = TABLES_DEPTH c then [(?p, fi, ?v)]
              else resident c ram (level + 1) ?v ?p)
        else [])"
    proof (cases "?v = 0")
      case True
      then show ?thesis by (simp add: within_Nil)
    next
      case nz: False
      show ?thesis
      proof (cases "level + 1 = TABLES_DEPTH c")
        case True
        have "?S = 1" using True by (rule span_last)
        then show ?thesis using nz True
          by (simp add: within_def concatenatePath_eq)
      next
        case False
        from "2.hyps"(1)[OF \<open>level < TABLES_DEPTH c \<and> i < PAGE_SIZE c\<close> refl refl nz False]
        show ?thesis using nz False by (simp add: concatenatePath_eq algebra_simps)
      qed
    qed
    show ?thesis
      using within_append[OF first rest lo_mid mid_hi]
      by (simp add: resident_for_step[OF lv iv])
  qed
qed

lemma resident_sorted: "sorted_wrt (<) (map fst (resident c ram level fi path))"
  using resident_within[of path c level ram fi] by (simp add: within_def)


text \<open>
  Where the search adopts no table and has found a resident page, the best it ends with is
  the first page of greatest distance, as line 87 computes the distance, in the list of
  resident pages, and later pages of the same distance have larger page numbers.
\<close>

lemma farthest_when_found:
  assumes search: "findFrame c q (- 1) 0 0 0 forb addr (addFrame_locals cur) s = (st, s1)"
    and no_adoption: "maxFrameIndex st \<noteq> - 1"
    and found: "maxCyclicalDistance st \<noteq> - 1"
  shows "\<exists>before after.
           resident c (RAM s) 0 0 0
             = before @ (pageToEvict st, parentOfPageToEvict st, frameToEvict st) # after
         \<and> (\<forall>y\<in>set before. seen_distance c q (fst y) < seen_distance c q (pageToEvict st))
         \<and> (\<forall>y\<in>set after. seen_distance c q (fst y) \<le> seen_distance c q (pageToEvict st)
                             \<and> pageToEvict st < fst y)"
proof -
  let ?x = "(pageToEvict st, parentOfPageToEvict st, frameToEvict st)"
  from findFrame_root_post[OF search] no_adoption
  have "victim st = foldl (keep_farther c q) (victim (addFrame_locals cur)) (resident c (RAM s) 0 0 0)"
    by (simp add: search_post_def)
  then have "foldl (keep_farther c q) (- 1, 0, 0, 0) (resident c (RAM s) 0 0 0)
               = (maxCyclicalDistance st, ?x)"
    by (simp add: victim_def addFrame_locals_def)
  from foldl_keep_farther[OF this] found
  obtain before after where ba: "resident c (RAM s) 0 0 0 = before @ ?x # after"
      "\<forall>y\<in>set before. seen_distance c q (fst y) < maxCyclicalDistance st"
      "\<forall>y\<in>set after. seen_distance c q (fst y) \<le> maxCyclicalDistance st"
      and d: "maxCyclicalDistance st = seen_distance c q (pageToEvict st)"
    by auto
  have "sorted_wrt (<) (map fst (before @ ?x # after))"
    using resident_sorted[of c "RAM s" 0 0 0] ba(1) by simp
  then have later: "\<forall>y\<in>set after. pageToEvict st < fst y"
    by (simp add: sorted_wrt_append)
  have b1: "\<forall>y\<in>set before. seen_distance c q (fst y) < seen_distance c q (pageToEvict st)"
    using ba(2) d by simp
  have b2: "\<forall>y\<in>set after. seen_distance c q (fst y) \<le> seen_distance c q (pageToEvict st)
                             \<and> pageToEvict st < fst y"
    using ba(3) d later by simp
  show ?thesis
    by (intro exI[of _ before] exI[of _ after] conjI ba(1) b1 b2)
qed

text \<open>
  The page numbers of the resident pages are below \<open>span c 0\<close>. When they, the faulting
  page and the number of pages fit in 31 bits, the distance of line 87 is the cyclic
  distance of the specification.
\<close>

lemma resident_page_range:
  "y \<in> set (resident c ram 0 0 0) \<Longrightarrow> 0 \<le> fst y \<and> fst y < span c 0"
  using resident_within[of 0 c 0 ram 0] by (simp add: within_def)

lemma resident_seen_distance:
  assumes "y \<in> set (resident c ram 0 0 0)" "span c 0 \<le> 2147483648"
    and "0 \<le> q" "q < 2147483648" "NUM_PAGES c \<le> 2147483648"
  shows "seen_distance c q (fst y) = cyclic_distance c q (fst y)"
proof -
  from resident_page_range[OF assms(1)] assms(2)
  have "0 \<le> fst y" "fst y < 2147483648" by simp_all
  moreover have "0 \<le> NUM_PAGES c" by (simp add: NUM_PAGES_def push_bit_eq_mult)
  ultimately show ?thesis using assms(3-5) by (intro seen_distance_eq) simp_all
qed

lemma calls_PMrestore: "calls (PMrestore c f q s) = PMrestore_call f q # calls s"
  by (simp add: PMrestore_def)

lemma calls_emptyFrame:
  "calls (emptyFrame c a s) =
     rev (map (\<lambda>offset. PMwrite_call (a + offset) 0) [0..PAGE_SIZE c - 1]) @ calls s"
  by (simp add: emptyFrame_def calls_emptyFrame_for)

section \<open>The claims\<close>

subsection \<open>C1: a write that is lost\<close>

text \<open>
  C1. The claim: for every valid address \<open>v\<close> and word \<open>w\<close>, VMwrite(v, w) followed by
  VMread(v) yields \<open>w\<close>. The code at a failing input, in the two-level configuration with
  four frames (more frames than table levels): after VMinitialize, VMwrite(0, 20) and
  VMwrite(4, 21), the call VMwrite(0, 22) succeeds, and the VMread(0) that follows it
  succeeds and yields 20, not 22. The third write finds the last-level table of page 0,
  frame 1, empty; the search adopts this very frame, which lies on the path being walked:
  it zeroes the root slot that leads to it and restores page 0 into it. The word 22 is
  stored in a frame that no table references, and the read restores the stale copy of page
  0 from the backing store.
\<close>

theorem roundtrip_lost_write:
  "let (ret_w, s3) = VMwrite config_2level 0 22 two_writes_memory;
       (ret_r, out, s4) = VMread config_2level 0 (Some 0) s3
   in ret_w = 1 \<and> ret_r = 1 \<and> out = Some 20 \<and> out \<noteq> Some 22
      \<and> RAM s3 = [0, 3, 22, 0, 21, 0, 2, 0] \<and> swapFile s3 = [(0, [20, 0])]
      \<and> int (TABLES_DEPTH config_2level) < NUM_FRAMES config_2level"
  by code_simp

subsection \<open>C2: the farthest-page rule\<close>

text \<open>
  C2. The claim: whenever addFrame takes the eviction case, the page evicted is a resident
  page, the farthest from the faulting page. The code at a failing input, in the
  three-level configuration with eight frames: in the walk of address 5 from
  \<open>seven_writes_memory\<close> the third step reads slot 12, finds it empty and calls addFrame
  for page 2. The search adopts no table and ends with maxFrameIndex 7, so the eviction
  case is taken; no page is resident; addFrame evicts page 0 from frame 0, which the
  victim variables name from their initialisation, zeroes slot 0 of frame 0, writes frame 0
  to slot 12, restores page 2 into frame 0 and returns frame 0. Where the search has found
  a resident page the rule of the claim holds, see \<open>farthest_when_found\<close>.
\<close>

theorem eviction_of_a_page_not_resident:
  "let (r0, sa) = translate_level config_3level 5 0 0 0 seven_writes_memory;
       (r1, sb) = translate_level config_3level 5 1 (fst r0) (snd r0) sa;
       (v, sc) = PMread 12 sb;
       (st, sd) = findFrame config_3level 2 (- 1) 0 0 0 (snd r1) 12 (addFrame_locals v) sc;
       (r2, se) = addFrame config_3level 2 2 (snd r1) v 12 sc
   in v = 0
      \<and> maxFrameIndex st \<noteq> - 1 \<and> \<not> maxFrameIndex st + 1 < NUM_FRAMES config_3level
      \<and> resident config_3level (RAM sc) 0 0 0 = []
      \<and> r2 = (0, 6)
      \<and> calls se = [PMrestore_call 0 2, PMwrite_call 12 0, PMwrite_call 0 0, PMevict_call 0 0]
                   @ calls sd
      \<and> int (TABLES_DEPTH config_3level) < NUM_FRAMES config_3level"
  by code_simp

subsection \<open>C3: the three strategies of the allocator\<close>

text \<open>
  C3. For every call of addFrame exactly one of three strategies runs, in this order of
  priority, decided by the result of the search from the root: (A) if the search adopted an
  empty table (maxFrameIndex is \<open>-1\<close>), that frame is reused: it is not the forbidden
  frame, the search has just written it to addressToAddTo, where the memory holds it, and
  addFrame changes nothing before filling it; (B) otherwise, if maxFrameIndex + 1 is below
  NUM_FRAMES, that fresh frame is written to addressToAddTo; (C) otherwise the victim's
  frame is copied to the backing store under the victim's page, the victim's parent slot is
  set to zero and then the frame is written to addressToAddTo. In every case the chosen
  frame is then filled: at the last level the faulting page is restored into it, and
  otherwise its \<open>PAGE_SIZE\<close> words are set to zero, every other word staying as it is, and
  it becomes the forbidden frame. The frame index returned and the one stored in the slot
  are the chosen frame narrowed to word_t. The statement gives the memory, the backing
  store and the backend calls after addFrame in terms of those after the search.
\<close>

theorem addFrame_strategies:
  "case findFrame c q (- 1) 0 0 0 forb addr (addFrame_locals cur) s of
     (st, s1) \<Rightarrow>
       (case addFrame c q level forb cur addr s of
          ((frame, forbidden), s2) \<Rightarrow>
            (let adopted = (maxFrameIndex st = - 1);
                 fresh = (maxFrameIndex st + 1 < NUM_FRAMES c);
                 chosen = (if adopted then zeroFrameIndex st
                           else if fresh then maxFrameIndex st + 1
                           else frameToEvict st);
                 victim_slot = parentOfPageToEvict st * PAGE_SIZE c
                                 + getOffset c (pageToEvict st);
                 swap2 = (if adopted \<or> fresh \<or> \<not> frame_in_RAM c s1 chosen then swapFile s1
                          else (pageToEvict st,
                                take (nat (PAGE_SIZE c))
                                  (drop (nat (chosen * PAGE_SIZE c)) (RAM s1))) # swapFile s1);
                 installed = (if adopted then RAM s1
                              else if fresh then poke (RAM s1) addr (int_cast chosen)
                              else poke (poke (RAM s1) victim_slot 0) addr (int_cast chosen))
             in frame = int_cast chosen
                \<and> forbidden = (if level + 1 = TABLES_DEPTH c then forb else chosen)
                \<and> calls s2 =
                    fill_calls c level chosen q
                    @ (if adopted then []
                       else if fresh then [PMwrite_call addr (int_cast chosen)]
                       else [PMwrite_call addr (int_cast chosen),
                             PMwrite_call victim_slot 0,
                             PMevict_call chosen (pageToEvict st)])
                    @ calls s1
                \<and> swapFile s2 = swap2
                \<and> RAM s2 =
                    (if level + 1 = TABLES_DEPTH c
                     then restore_words c installed chosen (stored_page c swap2 q)
                     else zero_words installed (chosen * PAGE_SIZE c) (PAGE_SIZE c))
                \<and> (adopted \<longrightarrow>
                     chosen \<noteq> forb
                     \<and> (\<exists>rest. calls s1 = PMwrite_call addr (int_cast chosen) # rest)
                     \<and> poke (RAM s1) addr (int_cast chosen) = RAM s1)))"
proof -
  obtain st s1 where search: "findFrame c q (- 1) 0 0 0 forb addr (addFrame_locals cur) s = (st, s1)"
    by (cases "findFrame c q (- 1) 0 0 0 forb addr (addFrame_locals cur) s")
  note effects = RAM_PMwrite swapFile_PMwrite calls_PMwrite RAM_PMrestore swapFile_PMrestore
    calls_PMrestore RAM_emptyFrame swapFile_emptyFrame calls_emptyFrame RAM_PMevict length_poke
  consider (A) "maxFrameIndex st = - 1"
    | (B) "maxFrameIndex st \<noteq> - 1" "maxFrameIndex st + 1 < NUM_FRAMES c"
    | (C) "maxFrameIndex st \<noteq> - 1" "\<not> maxFrameIndex st + 1 < NUM_FRAMES c"
    by blast
  then show ?thesis
  proof cases
    case A
    with findFrame_root_post[OF search]
    have ad: "currentFrameIndex st = int_cast (zeroFrameIndex st)" "zeroFrameIndex st \<noteq> forb"
      "\<exists>rest. calls s1 = PMwrite_call addr (int_cast (zeroFrameIndex st)) # rest"
      "poke (RAM s1) addr (int_cast (zeroFrameIndex st)) = RAM s1"
      by (auto simp: search_post_def)
    show ?thesis
    proof (cases "level + 1 = TABLES_DEPTH c")
      case True
      with search A ad show ?thesis
        by (simp add: addFrame_def Let_def fill_calls_def effects)
    next
      case False
      with search A ad show ?thesis
        by (simp add: addFrame_def Let_def fill_calls_def effects)
    qed
  next
    case B
    show ?thesis
    proof (cases "level + 1 = TABLES_DEPTH c")
      case True
      with search B show ?thesis
        by (simp add: addFrame_def Let_def fill_calls_def effects)
    next
      case False
      with search B show ?thesis
        by (simp add: addFrame_def Let_def fill_calls_def effects)
    qed
  next
    case C
    have sw: "swapFile (PMevict c f p s1)
                = (if frame_in_RAM c s1 f
                   then (p, take (nat (PAGE_SIZE c)) (drop (nat (f * PAGE_SIZE c)) (RAM s1)))
                        # swapFile s1
                   else swapFile s1)" for f p
      by (simp add: PMevict_def)
    have cl: "calls (PMevict c f p s1) = PMevict_call f p # calls s1" for f p
      by (simp add: PMevict_def)
    show ?thesis
    proof (cases "level + 1 = TABLES_DEPTH c")
      case True
      with search C show ?thesis
        by (simp add: addFrame_def Let_def fill_calls_def effects sw cl)
    next
      case False
      with search C show ?thesis
        by (simp add: addFrame_def Let_def fill_calls_def effects sw cl)
    qed
  qed
qed

text \<open>
  Witness for C3: after two writes in the two-level configuration frame 1 is an empty table.
  addFrame for page 3 at the last level, with slot 7 to fill, adopts it (strategy A): the
  search zeroes slot 0, which led to frame 1, and writes 1 to slot 7; addFrame restores
  page 3, never evicted and so all zero, into frame 1.
\<close>

theorem addFrame_strategies_witness:
  "maxFrameIndex (fst (findFrame config_2level 3 (- 1) 0 0 0 0 7 (addFrame_locals 0)
                         two_writes_memory)) = - 1
   \<and> fst (addFrame config_2level 3 1 0 0 7 two_writes_memory) = (1, 0)
   \<and> take 3 (calls (snd (addFrame config_2level 3 1 0 0 7 two_writes_memory)))
       = [PMrestore_call 1 3, PMwrite_call 7 1, PMwrite_call 0 0]
   \<and> RAM two_writes_memory = [1, 3, 0, 0, 21, 0, 2, 0]
   \<and> RAM (snd (addFrame config_2level 3 1 0 0 7 two_writes_memory)) = [0, 3, 0, 0, 21, 0, 2, 1]
   \<and> (case findFrame config_2level 3 (- 1) 0 0 0 0 7 (addFrame_locals 0) two_writes_memory of
     (st, s1) \<Rightarrow>
       (case addFrame config_2level 3 1 0 0 7 two_writes_memory of
          ((frame, forbidden), s2) \<Rightarrow>
            (let adopted = (maxFrameIndex st = - 1);
                 fresh = (maxFrameIndex st + 1 < NUM_FRAMES config_2level);
                 chosen = (if adopted then zeroFrameIndex st
                           else if fresh then maxFrameIndex st + 1
                           else frameToEvict st);
                 victim_slot = parentOfPageToEvict st * PAGE_SIZE config_2level
                                 + getOffset config_2level (pageToEvict st);
                 swap2 = (if adopted \<or> fresh \<or> \<not> frame_in_RAM config_2level s1 chosen
                          then swapFile s1
                          else (pageToEvict st,
                                take (nat (PAGE_SIZE config_2level))
                                  (drop (nat (chosen * PAGE_SIZE config_2level)) (RAM s1)))
                               # swapFile s1);
                 installed = (if adopted then RAM s1
                              else if fresh then poke (RAM s1) 7 (int_cast chosen)
                              else poke (poke (RAM s1) victim_slot 0) 7 (int_cast chosen))
             in frame = int_cast chosen
                \<and> forbidden = (if 1 + 1 = TABLES_DEPTH config_2level then 0 else chosen)
                \<and> calls s2 =
                    fill_calls config_2level 1 chosen 3
                    @ (if adopted then []
                       else if fresh then [PMwrite_call 7 (int_cast chosen)]
                       else [PMwrite_call 7 (int_cast chosen),
                             PMwrite_call victim_slot 0,
                             PMevict_call chosen (pageToEvict st)])
                    @ calls s1
                \<and> swapFile s2 = swap2
                \<and> RAM s2 =
                    (if 1 + 1 = TABLES_DEPTH config_2level
                     then restore_words config_2level installed chosen
                            (stored_page config_2level swap2 3)
                     else zero_words installed (chosen * PAGE_SIZE config_2level)
                            (PAGE_SIZE config_2level))
                \<and> (adopted \<longrightarrow>
                     chosen \<noteq> 0
                     \<and> (\<exists>rest. calls s1 = PMwrite_call 7 (int_cast chosen) # rest)
                     \<and> poke (RAM s1) 7 (int_cast chosen) = RAM s1))))"
proof -
  have a: "maxFrameIndex (fst (findFrame config_2level 3 (- 1) 0 0 0 0 7 (addFrame_locals 0)
                         two_writes_memory)) = - 1"
    by code_simp
  have b: "fst (addFrame config_2level 3 1 0 0 7 two_writes_memory) = (1, 0)"
    by code_simp
  have c: "take 3 (calls (snd (addFrame config_2level 3 1 0 0 7 two_writes_memory)))
       = [PMrestore_call 1 3, PMwrite_call 7 1, PMwrite_call 0 0]"
    by code_simp
  have d: "RAM two_writes_memory = [1, 3, 0, 0, 21, 0, 2, 0]"
    by code_simp
  have e: "RAM (snd (addFrame config_2level 3 1 0 0 7 two_writes_memory))
             = [0, 3, 0, 0, 21, 0, 2, 1]"
    by code_simp
  note t = addFrame_strategies[where c = config_2level and q = 3 and forb = 0 and addr = 7
      and cur = 0 and s = two_writes_memory and level = 1]
  show ?thesis by (intro conjI a b c d e t)
qed

subsection \<open>C4: rejected calls\<close>

text \<open>
  C4. For every virtual address \<open>v\<close> with \<open>v \<ge> VIRTUAL_MEMORY_SIZE\<close>, VMread and VMwrite
  return 0 and leave the memory, the backing store and the record of backend calls as they
  were, so no backend call is made; VMread does the same for any address when its out
  pointer is null. The target of the out pointer is not written.
\<close>

theorem invalid_access_rejected:
  assumes "VIRTUAL_MEMORY_SIZE c \<le> int v"
  shows "VMread c v out s = (0, out, s) \<and> VMwrite c v w s = (0, s)
         \<and> VMread c v' None s = (0, None, s)"
  using assms by (simp add: VMread_def VMwrite_def)

text \<open>Witness for C4: address 8 in the two-level configuration, whose virtual memory has 8 words.\<close>

theorem invalid_access_rejected_witness:
  "VIRTUAL_MEMORY_SIZE config_2level \<le> int 8
   \<and> (VMread config_2level 8 (Some 5) two_writes_memory = (0, Some 5, two_writes_memory)
      \<and> VMwrite config_2level 8 3 two_writes_memory = (0, two_writes_memory)
      \<and> VMread config_2level 0 None two_writes_memory = (0, None, two_writes_memory))"
proof -
  have h: "VIRTUAL_MEMORY_SIZE config_2level \<le> int 8" by code_simp
  note t = invalid_access_rejected[OF h, where out = "Some 5" and s = two_writes_memory
      and w = 3 and v' = 0]
  show ?thesis by (intro conjI h t)
qed

subsection \<open>C5: two slots with the same frame\<close>

text \<open>
  C5. The claim: after any sequence of operations at most one slot of the tree references a
  given frame. The code at a failing input, in the three-level configuration with eight
  frames: after VMinitialize and the eight writes of \<open>twin_reference_memory\<close> the tables
  reached from the root hold exactly two references, the two slots of frame 0, and both
  reference frame 7. The last write evicts frame 0 for want of a resident page and restores
  a data page into it, so the root table holds the words of that page.
\<close>

theorem twin_reference:
  "let s = twin_reference_memory
   in references config_3level (RAM s) 0 0 = [(0, 7), (1, 7)]
      \<and> \<not> distinct (map snd (references config_3level (RAM s) 0 0))
      \<and> int (TABLES_DEPTH config_3level) < NUM_FRAMES config_3level"
  by code_simp

subsection \<open>C6: a committed frame chosen again\<close>

text \<open>
  C6. The claim: within one translation a frame committed as a table at one level is never
  chosen again at a deeper level. The code at a failing input, in the three-level
  configuration: after the five writes of \<open>five_writes_memory\<close>, the walk of address 9
  reads frame 7 from the root (level 0), finds slot 14 of frame 7 empty at level 1 and gets
  frame 7 itself from addFrame, which makes it the forbidden frame (the search adopted the
  empty table on the path being walked and detached it from the root); at level 2 it finds
  slot 14 empty again and addFrame returns frame 7 once more, this time as the fresh frame
  maxFrameIndex + 1, installs it in its own slot and restores page 4 into it.
\<close>

theorem committed_frame_chosen_again:
  "let (r0, sa) = translate_level config_3level 9 0 0 0 five_writes_memory;
       (r1, sb) = translate_level config_3level 9 1 (fst r0) (snd r0) sa;
       (r2, sc) = translate_level config_3level 9 2 (fst r1) (snd r1) sb
   in r0 = (7, 0) \<and> peek (RAM sa) 14 = 0 \<and> r1 = (7, 7)
      \<and> peek (RAM sb) 14 = 0 \<and> r2 = (7, 7)
      \<and> take 2 (calls sc) = [PMrestore_call 7 4, PMwrite_call 14 7]
      \<and> int (TABLES_DEPTH config_3level) < NUM_FRAMES config_3level"
  by code_simp

subsection \<open>C7: frame 0 evicted\<close>

text \<open>
  C7. The claim: frame 0 always remains the root table; it is never an eviction victim and
  its contents change only by installing children. The code at a failing input, in the
  three-level configuration: the last of the eight writes of \<open>eight_writes_memory\<close>,
  VMwrite(5, 9), ends with the backend calls PMevict(0, 0), PMwrite(0, 0), PMwrite(12, 0),
  PMrestore(0, 2) and PMwrite(1, 9): frame 0 is the eviction victim, page 2 is restored
  into it, and the word 9 of the client is stored in the second slot of the root table.
\<close>

theorem root_frame_evicted:
  "let s = eight_writes_memory
   in take 5 (calls s)
        = [PMwrite_call 1 9, PMrestore_call 0 2, PMwrite_call 12 0, PMwrite_call 0 0,
           PMevict_call 0 0]
      \<and> RAM s ! 0 = 0 \<and> RAM s ! 1 = 9
      \<and> int (TABLES_DEPTH config_3level) < NUM_FRAMES config_3level"
  by code_simp

subsection \<open>C8: eviction with no resident page\<close>

text \<open>
  C8. The claim: with more frames than table levels, whenever addFrame reaches the eviction
  case the search has found a resident page. The code at a failing input, in the
  three-level configuration: in the walk of address 5 from \<open>seven_writes_memory\<close> the
  third step finds slot 12 empty, and the search that addFrame then runs adopts no table
  and ends with maxFrameIndex 7, so the eviction case is taken, while the tree holds no
  resident page: the best distance is still \<open>-1\<close> and the victim is the initial page 0 in
  frame 0 with parent 0.
\<close>

theorem eviction_without_resident_page:
  "let (r0, sa) = translate_level config_3level 5 0 0 0 seven_writes_memory;
       (r1, sb) = translate_level config_3level 5 1 (fst r0) (snd r0) sa;
       (v, sc) = PMread 12 sb;
       (st, sd) = findFrame config_3level 2 (- 1) 0 0 0 (snd r1) 12 (addFrame_locals v) sc
   in r0 = (7, 0) \<and> r1 = (6, 6) \<and> v = 0
      \<and> maxFrameIndex st = 7 \<and> \<not> maxFrameIndex st + 1 < NUM_FRAMES config_3level
      \<and> maxCyclicalDistance st = - 1
      \<and> resident config_3level (RAM sc) 0 0 0 = []
      \<and> victim st = (- 1, 0, 0, 0)
      \<and> int (TABLES_DEPTH config_3level) < NUM_FRAMES config_3level"
  by code_simp

subsection \<open>C9: scenario S1\<close>

text \<open>
  C9, counterexample. In the stated configuration the memory after VMinitialize and
  VMwrite(13, 3) and the word read back are not the ones the scenario expects.
\<close>

theorem S1_counterexample:
  "\<not> (RAM S1_memory ! 2 = 1 \<and> RAM S1_memory ! 5 = 2 \<and> RAM S1_memory ! 7 = 3
      \<and> fst (snd (VMread config_S1 13 (Some 0) S1_memory)) = Some 3)"
  by code_simp

text \<open>
  C9, amended. The stated configuration has four table levels and only four frames: the
  root, the three tables below it and the data page need five. With one more physical
  address bit (eight frames, the other constants as stated) the scenario holds with frame 4
  as the data page: after VMinitialize, VMwrite(13, 3) succeeds, the walk uses slot 0 of
  frame 0, slot 1 of frame 1, slot 1 of frame 2, slot 0 of frame 3 and offset 1 of frame 4,
  leaving memory[0] = 1, memory[2*1+1] = 2, memory[2*2+1] = 3, memory[2*3+0] = 4 and
  memory[2*4+1] = 3 and every other word zero, and VMread(13) succeeds and yields 3.
\<close>

theorem S1_amended:
  "(let (ret_w, s) = VMwrite config_S1_wide 13 3 (VMinitialize config_S1_wide (fresh config_S1_wide));
        (ret_r, out, s') = VMread config_S1_wide 13 (Some 0) s
    in ret_w = 1
       \<and> RAM s = [1, 0, 0, 2, 0, 3, 4, 0, 0, 3, 0, 0, 0, 0, 0, 0]
       \<and> ret_r = 1 \<and> out = Some 3
       \<and> RAM s' = RAM s)
   \<and> TABLES_DEPTH config_S1_wide = 4 \<and> PAGE_SIZE config_S1_wide = 2
   \<and> NUM_FRAMES config_S1_wide = 8 \<and> NUM_PAGES config_S1_wide = 16
   \<and> TABLES_DEPTH config_S1 = 4 \<and> NUM_FRAMES config_S1 = 4"
  by code_simp

subsection \<open>C10: a backend address out of range\<close>

text \<open>
  C10. The claim: with more frames than table levels every frame index installed in a slot is
  below NUM_FRAMES and every address passed to the backend is below
  NUM_FRAMES * PAGE_SIZE. The code at a failing input, in the three-level configuration,
  where that bound is 16: VMwrite(8, 9) after the eight writes of \<open>eight_writes_memory\<close>
  makes sixteen backend calls. The first is PMread(1): it reads the word 9 from the second
  slot of the root table, which the eighth write stored there as data. The walk takes it
  for a frame index, and the second call is PMread(18), for slot 0 of a frame 9 that does
  not exist.
\<close>

theorem backend_address_out_of_range:
  "let s8 = eight_writes_memory;
       s9 = snd (VMwrite config_3level 8 9 s8)
   in RAM s8 ! 1 = 9
      \<and> drop 16 (calls s9) = calls s8
      \<and> take 2 (drop 14 (calls s9)) = [PMread_call 18, PMread_call 1]
      \<and> \<not> in_RAM s8 18
      \<and> NUM_FRAMES config_3level * PAGE_SIZE config_3level = 16
      \<and> int (TABLES_DEPTH config_3level) < NUM_FRAMES config_3level"
  by code_simp

end
